theory Spec2Isabelle
  imports Complex_Main
begin

section \<open>Python values, exceptions and the environment of the agent\<close>

text \<open>
  The agent of \<^verbatim>\<open>agent.py\<close> works on three kinds of data: the schema read from
  \<^verbatim>\<open>schema.json\<close>, the text returned by the Gemma model, and the dictionary that
  \<^verbatim>\<open>json.loads\<close> decodes from that text. The decoded dictionary is untyped Python data, so
  it is modelled as a JSON value. Numbers are kept abstract (type \<open>'n\<close>): the code does
  float arithmetic on them, and the operations it uses are taken from the environment.
  A string is a list of code points below 256.
\<close>

datatype 'n json =
    JNull
  | JBool bool
  | JNum 'n
  | JStr string
  | JArr "'n json list"
  | JObj "(string \<times> 'n json) list"

type_synonym 'n pydict = "(string \<times> 'n json) list"

text \<open>
  Exceptions. \<open>ValueError m\<close> is raised by the code itself with message \<open>m\<close>;
  \<open>External m\<close> is any exception raised inside a library call (the Gemma client, the HTTP
  client, the JSON decoder), with its string form \<open>m\<close>. The others are raised by the
  interpreter and carry the offending value.
\<close>

datatype 'n exn =
    ValueError string
  | External string
  | TypeError_unhashable "'n json"
  | TypeError_operand "'n json"
  | KeyError "'n json"
  | IndexError
  | AttributeError "'n json"

text \<open>One entry of \<^verbatim>\<open>schema.json\<close>; \<^verbatim>\<open>unit\<close> is optional.\<close>

record metric_info =
  description :: string
  unit :: "string option"
  example_query :: string

text \<open>The schema is a Python dict: an association list in iteration order.\<close>

type_synonym schema = "(string \<times> metric_info) list"

text \<open>One record built by \<^verbatim>\<open>execute_promql\<close>.\<close>

record 'n query_result =
  labels :: "(string \<times> string) list"
  timestamp :: 'n
  sample_value :: 'n

text \<open>
  What the code takes from outside: the JSON decoder (applied only to a text that starts
  with an opening brace, so it returns a dict or raises), \<^verbatim>\<open>repr\<close> of a value, the string
  form of an interpreter exception, the number a literal denotes, float subtraction and
  comparison, the truth value of a number, the Grafana credential and the Grafana
  endpoint.
\<close>

record 'n env =
  loads :: "string \<Rightarrow> 'n exn + 'n pydict"
  py_repr :: "'n json \<Rightarrow> string"
  builtin_str :: "'n exn \<Rightarrow> string"
  num_lit :: "string \<Rightarrow> 'n"
  num_sub :: "'n \<Rightarrow> 'n \<Rightarrow> 'n"
  num_gt :: "'n \<Rightarrow> 'n \<Rightarrow> bool"
  num_truth :: "'n \<Rightarrow> bool"
  grafana_api_key :: "string option"
  grafana :: "string \<Rightarrow> int \<Rightarrow> 'n exn + 'n query_result list"

text \<open>One entry of \<^verbatim>\<open>conversation_history\<close>.\<close>

record 'n turn =
  turn_query :: string
  turn_intent :: "'n pydict"
  turn_promql :: string
  turn_results :: "'n query_result list"
  turn_answer :: string
  turn_model_used :: string

text \<open>
  The agent object. \<open>model\<close> gives the outcome of the k-th call of
  \<^verbatim>\<open>generate_content\<close> followed by \<^verbatim>\<open>.text\<close>: the text, or the exception raised. The
  prompt is not modelled: it only influences the reply, and every reply is allowed.
  \<open>calls\<close> counts the calls made so far.
\<close>

record 'n agent =
  schema :: schema
  model :: "nat \<Rightarrow> 'n exn + string"
  calls :: nat
  conversation_history :: "'n turn list"

section \<open>String operations\<close>

definition isspace :: "char \<Rightarrow> bool" where
  "isspace c = (of_char c \<in> {9::nat, 10, 11, 12, 13, 28, 29, 30, 31, 32, 133, 160})"

definition strip :: "string \<Rightarrow> string" where
  "strip s = rev (dropWhile isspace (rev (dropWhile isspace s)))"

definition isupper :: "char \<Rightarrow> bool" where
  "isupper c = (let n = (of_char c :: nat) in
     (65 \<le> n \<and> n \<le> 90) \<or> (192 \<le> n \<and> n \<le> 222 \<and> n \<noteq> 215))"

text \<open>Lower-casing adds 32 to the code point of an upper-case letter: it sets bit 5.\<close>

definition lower_char :: "char \<Rightarrow> char" where
  "lower_char c = (if isupper c
     then (case c of Char b0 b1 b2 b3 b4 b5 b6 b7 \<Rightarrow> Char b0 b1 b2 b3 b4 True b6 b7)
     else c)"

definition lower :: "string \<Rightarrow> string" where
  "lower s = map lower_char s"

fun startswith :: "string \<Rightarrow> string \<Rightarrow> bool" where
  "startswith [] s = True"
| "startswith (p # ps) [] = False"
| "startswith (p # ps) (c # cs) = (p = c \<and> startswith ps cs)"

text \<open>\<open>contains sub s\<close> is Python's \<^verbatim>\<open>sub in s\<close> on strings.\<close>

fun contains :: "string \<Rightarrow> string \<Rightarrow> bool" where
  "contains sub [] = (sub = [])"
| "contains sub (c # cs) = (startswith sub (c # cs) \<or> contains sub cs)"

text \<open>\<^verbatim>\<open>s.replace(old, new)\<close>: every occurrence, left to right, without overlap.\<close>

function replace :: "string \<Rightarrow> string \<Rightarrow> string \<Rightarrow> string" where
  "replace old new [] = (if old = [] then new else [])"
| "replace old new (c # cs) =
     (if old = [] then new @ concat (map (\<lambda>x. x # new) (c # cs))
      else if startswith old (c # cs) then new @ replace old new (drop (length old) (c # cs))
      else c # replace old new cs)"
  by pat_completeness auto
termination
proof (relation "measure (\<lambda>(old, new, s). length s)")
  show "wf (measure (\<lambda>(old, new, s). length s))" by simp
next
  fix old new :: string and c :: char and cs :: string
  assume "old \<noteq> []"
  then show "((old, new, drop (length old) (c # cs)), old, new, c # cs)
    \<in> measure (\<lambda>(old, new, s). length s)"
    by (cases old) simp_all
next
  fix old new :: string and c :: char and cs :: string
  show "((old, new, cs), old, new, c # cs) \<in> measure (\<lambda>(old, new, s). length s)"
    by simp
qed

text \<open>
  \<^verbatim>\<open>re.search(r'\{.*\}', s, re.DOTALL)\<close> and \<^verbatim>\<open>group(0)\<close>: the match starts at the first
  opening brace and, the star being greedy and the dot matching every character, ends at
  the last closing brace after it.
\<close>

definition json_match :: "string \<Rightarrow> string option" where
  "json_match s =
     (case dropWhile (\<lambda>c. c \<noteq> CHR ''{'') s of
        [] \<Rightarrow> None
      | b # t \<Rightarrow>
          (case dropWhile (\<lambda>c. c \<noteq> CHR ''}'') (rev t) of
             [] \<Rightarrow> None
           | e # r \<Rightarrow> Some (b # rev (e # r))))"

section \<open>Operations on Python values\<close>

text \<open>\<^verbatim>\<open>d.get(k)\<close>, \<^verbatim>\<open>d.get(k, default)\<close> and \<^verbatim>\<open>d[k] = v\<close>.\<close>

definition dict_get :: "'n pydict \<Rightarrow> string \<Rightarrow> 'n json" where
  "dict_get d k = (case map_of d k of None \<Rightarrow> JNull | Some v \<Rightarrow> v)"

definition dict_get_default :: "'n pydict \<Rightarrow> string \<Rightarrow> 'n json \<Rightarrow> 'n json" where
  "dict_get_default d k dflt = (case map_of d k of None \<Rightarrow> dflt | Some v \<Rightarrow> v)"

fun dict_set :: "string \<Rightarrow> 'n json \<Rightarrow> 'n pydict \<Rightarrow> 'n pydict" where
  "dict_set k v [] = [(k, v)]"
| "dict_set k v ((k', v') # d) = (if k = k' then (k, v) # d else (k', v') # dict_set k v d)"

text \<open>\<^verbatim>\<open>str(v)\<close>, as an f-string formats a value.\<close>

definition py_str :: "'n env \<Rightarrow> 'n json \<Rightarrow> string" where
  "py_str rt v = (case v of JStr s \<Rightarrow> s | _ \<Rightarrow> py_repr rt v)"

text \<open>\<^verbatim>\<open>str(e)\<close> of an exception.\<close>

definition exn_str :: "'n env \<Rightarrow> 'n exn \<Rightarrow> string" where
  "exn_str rt e = (case e of ValueError m \<Rightarrow> m | External m \<Rightarrow> m | _ \<Rightarrow> builtin_str rt e)"

text \<open>The truth value of a Python value, as \<^verbatim>\<open>not v\<close> tests it.\<close>

definition truthy :: "'n env \<Rightarrow> 'n json \<Rightarrow> bool" where
  "truthy rt v =
     (case v of
        JNull \<Rightarrow> False
      | JBool b \<Rightarrow> b
      | JNum n \<Rightarrow> num_truth rt n
      | JStr s \<Rightarrow> s \<noteq> []
      | JArr xs \<Rightarrow> xs \<noteq> []
      | JObj kvs \<Rightarrow> kvs \<noteq> [])"

text \<open>
  \<^verbatim>\<open>v in self.schema\<close>: a list or a dict cannot be hashed; the keys of the schema are
  strings, so no other value is among them.
\<close>

definition in_schema :: "schema \<Rightarrow> 'n json \<Rightarrow> 'n exn + bool" where
  "in_schema sch v =
     (case v of
        JStr s \<Rightarrow> Inr (s \<in> set (map fst sch))
      | JArr xs \<Rightarrow> Inl (TypeError_unhashable v)
      | JObj kvs \<Rightarrow> Inl (TypeError_unhashable v)
      | _ \<Rightarrow> Inr False)"

text \<open>\<^verbatim>\<open>self.schema[v]\<close>.\<close>

definition schema_lookup :: "schema \<Rightarrow> 'n json \<Rightarrow> 'n exn + metric_info" where
  "schema_lookup sch v =
     (case v of
        JStr s \<Rightarrow> (case map_of sch s of None \<Rightarrow> Inl (KeyError v) | Some info \<Rightarrow> Inr info)
      | JArr xs \<Rightarrow> Inl (TypeError_unhashable v)
      | JObj kvs \<Rightarrow> Inl (TypeError_unhashable v)
      | _ \<Rightarrow> Inl (KeyError v))"

text \<open>\<^verbatim>\<open>v - 0.2\<close> for a decoded value \<open>v\<close> and a float \<open>x\<close>; \<^verbatim>\<open>True\<close> counts as 1.\<close>

definition py_sub :: "'n env \<Rightarrow> 'n json \<Rightarrow> 'n \<Rightarrow> 'n exn + 'n" where
  "py_sub rt v x =
     (case v of
        JNum n \<Rightarrow> Inr (num_sub rt n x)
      | JBool b \<Rightarrow> Inr (num_sub rt (num_lit rt (if b then ''1'' else ''0'')) x)
      | _ \<Rightarrow> Inl (TypeError_operand v))"

text \<open>\<^verbatim>\<open>max(a, b)\<close>: the later argument wins only when it is strictly greater.\<close>

definition py_max :: "'n env \<Rightarrow> 'n \<Rightarrow> 'n \<Rightarrow> 'n" where
  "py_max rt a b = (if num_gt rt b a then b else a)"

section \<open>The agent\<close>

text \<open>\<^verbatim>\<open>self.model.generate_content(prompt)\<close> followed by \<^verbatim>\<open>response.text\<close>.\<close>

definition generate_content :: "'n agent \<Rightarrow> ('n exn + string) \<times> 'n agent" where
  "generate_content a = (model a (calls a), a\<lparr>calls := Suc (calls a)\<rparr>)"

definition find_closest_metric :: "'n agent \<Rightarrow> string \<Rightarrow> ('n exn + string) \<times> 'n agent" where
  "find_closest_metric a user_query =
     (case generate_content a of
        (Inl e, a1) \<Rightarrow> (Inl e, a1)
      | (Inr text, a1) \<Rightarrow>
          (let metric_name = lower (strip text) in
           if metric_name \<in> set (map fst (schema a1)) then (Inr metric_name, a1)
           else
             (case find (\<lambda>metric. contains (lower metric) (lower text)) (map fst (schema a1)) of
                Some metric \<Rightarrow> (Inr metric, a1)
              | None \<Rightarrow>
                  (case map fst (schema a1) of
                     [] \<Rightarrow> (Inl IndexError, a1)
                   | k # ks \<Rightarrow> (Inr k, a1)))))"

definition no_json_msg :: string where
  "no_json_msg = ''No valid JSON found in Gemma response''"

definition parse_user_query ::
  "'n env \<Rightarrow> 'n agent \<Rightarrow> string \<Rightarrow> ('n exn + 'n pydict) \<times> 'n agent" where
  "parse_user_query rt a user_query =
     (case generate_content a of
        (Inl e, a1) \<Rightarrow> (Inl e, a1)
      | (Inr text, a1) \<Rightarrow>
          (case json_match (strip text) of
             None \<Rightarrow> (Inl (ValueError no_json_msg), a1)
           | Some json_str \<Rightarrow>
               (case loads rt json_str of
                  Inl e \<Rightarrow> (Inl e, a1)
                | Inr intent \<Rightarrow>
                    (case in_schema (schema a1) (dict_get intent ''metric'') of
                       Inl e \<Rightarrow> (Inl e, a1)
                     | Inr present \<Rightarrow>
                         if \<not> present \<and> dict_get intent ''metric'' \<noteq> JNull then
                           (case find_closest_metric a1 user_query of
                              (Inl e, a2) \<Rightarrow> (Inl e, a2)
                            | (Inr metric, a2) \<Rightarrow>
                                (let intent1 = dict_set ''metric'' (JStr metric) intent in
                                 case py_sub rt
                                        (dict_get_default intent1 ''confidence''
                                           (JNum (num_lit rt ''0.5'')))
                                        (num_lit rt ''0.2'') of
                                   Inl e \<Rightarrow> (Inl e, a2)
                                 | Inr c \<Rightarrow>
                                     (Inr (dict_set ''confidence''
                                             (JNum (py_max rt (num_lit rt ''0.3'') c)) intent1),
                                      a2)))
                         else (Inr intent, a1)))))"

definition unknown_metric_msg :: "'n env \<Rightarrow> 'n json \<Rightarrow> string" where
  "unknown_metric_msg rt metric =
     ''Metric '' @ [CHR 0x27] @ py_str rt metric @ [CHR 0x27] @ '' not in schema''"

text \<open>
  The two steps of \<^verbatim>\<open>build_promql\<close> after the metric is looked up: the textual
  replacement of \<^verbatim>\<open>[5m]\<close>, and the \<^verbatim>\<open>if\<close>/\<^verbatim>\<open>elif\<close> chain on the aggregation.
\<close>

definition substitute_time_range :: "'n env \<Rightarrow> string \<Rightarrow> 'n json \<Rightarrow> string" where
  "substitute_time_range rt base_query time_range =
     (if contains ''[5m]'' base_query \<and> time_range \<noteq> JStr ''5m''
      then replace ''[5m]'' (''['' @ py_str rt time_range @ '']'') base_query
      else base_query)"

definition wrap_aggregation :: "'n json \<Rightarrow> string \<Rightarrow> string" where
  "wrap_aggregation agg base_query =
     (if agg = JStr ''max'' then ''max('' @ base_query @ '')''
      else if agg = JStr ''min'' then ''min('' @ base_query @ '')''
      else if agg = JStr ''sum'' then ''sum('' @ base_query @ '')''
      else if agg = JStr ''avg'' then ''avg('' @ base_query @ '')''
      else base_query)"

definition build_promql :: "'n env \<Rightarrow> 'n agent \<Rightarrow> 'n pydict \<Rightarrow> 'n exn + string" where
  "build_promql rt a intent =
     (let metric = dict_get intent ''metric'';
          agg = dict_get_default intent ''aggregation'' (JStr ''avg'');
          time_range = dict_get_default intent ''time_range'' (JStr ''5m'')
      in
      if \<not> truthy rt metric then Inl (ValueError (unknown_metric_msg rt metric))
      else
        (case in_schema (schema a) metric of
           Inl e \<Rightarrow> Inl e
         | Inr present \<Rightarrow>
             if \<not> present then Inl (ValueError (unknown_metric_msg rt metric))
             else
               (case schema_lookup (schema a) metric of
                  Inl e \<Rightarrow> Inl e
                | Inr info \<Rightarrow>
                    Inr (wrap_aggregation agg
                           (substitute_time_range rt (example_query info) time_range)))))"

text \<open>
  \<^verbatim>\<open>execute_promql\<close>: the credential check is the code's own; the HTTP request and the
  reshaping of its response are the environment's \<open>grafana\<close>.
\<close>

definition execute_promql ::
  "'n env \<Rightarrow> string \<Rightarrow> int \<Rightarrow> 'n exn + 'n query_result list" where
  "execute_promql rt promql datasource_id =
     (case grafana_api_key rt of
        None \<Rightarrow> Inl (ValueError ''Grafana API key not configured'')
      | Some key \<Rightarrow>
          if key = [] then Inl (ValueError ''Grafana API key not configured'')
          else grafana rt promql datasource_id)"

definition no_data_msg :: string where
  "no_data_msg = ''No data found for this metric and time range.''"

text \<open>
  \<^verbatim>\<open>format_answer\<close>. The scaled and formatted value, the unit and the capitalised
  aggregation only enter the prompt; what is kept of them is what can raise:
  \<^verbatim>\<open>intent["metric"]\<close>, \<^verbatim>\<open>self.schema[metric_name]\<close>, \<^verbatim>\<open>.capitalize()\<close> on a value that is
  not a string, and \<^verbatim>\<open>intent['intent']\<close>, in the order the code evaluates them.
\<close>

definition format_answer ::
  "'n env \<Rightarrow> 'n agent \<Rightarrow> 'n pydict \<Rightarrow> 'n query_result list \<Rightarrow> ('n exn + string) \<times> 'n agent" where
  "format_answer rt a intent metrics =
     (if metrics = [] then (Inr no_data_msg, a)
      else
        (case map_of intent ''metric'' of
           None \<Rightarrow> (Inl (KeyError (JStr ''metric'')), a)
         | Some metric_name \<Rightarrow>
             (case schema_lookup (schema a) metric_name of
                Inl e \<Rightarrow> (Inl e, a)
              | Inr metric_info \<Rightarrow>
                  (case dict_get_default intent ''aggregation'' (JStr ''avg'') of
                     JStr agg \<Rightarrow>
                       (case map_of intent ''intent'' of
                          None \<Rightarrow> (Inl (KeyError (JStr ''intent'')), a)
                        | Some intent_text \<Rightarrow>
                            (case generate_content a of
                               (Inl e, a1) \<Rightarrow> (Inl e, a1)
                             | (Inr text, a1) \<Rightarrow> (Inr (strip text), a1)))
                   | v \<Rightarrow> (Inl (AttributeError v), a)))))"

definition not_understood_msg :: string where
  "not_understood_msg =
     ''I couldn'' @ [CHR 0x27] @ ''t understand which metric you'' @ [CHR 0x27] @
     ''re asking about. Please try asking about CPU usage, memory usage, GPU utilization, or system uptime.''"

definition error_prefix :: string where
  "error_prefix = ''I encountered an error while processing your query: ''"

text \<open>The body of the \<^verbatim>\<open>try\<close> block of \<^verbatim>\<open>process_query\<close>.\<close>

definition process_query_try ::
  "'n env \<Rightarrow> 'n agent \<Rightarrow> string \<Rightarrow> int \<Rightarrow> ('n exn + string) \<times> 'n agent" where
  "process_query_try rt a user_query datasource_id =
     (case parse_user_query rt a user_query of
        (Inl e, a1) \<Rightarrow> (Inl e, a1)
      | (Inr intent, a1) \<Rightarrow>
          if \<not> truthy rt (dict_get intent ''metric'') then (Inr not_understood_msg, a1)
          else
            (case build_promql rt a1 intent of
               Inl e \<Rightarrow> (Inl e, a1)
             | Inr promql \<Rightarrow>
                 (case execute_promql rt promql datasource_id of
                    Inl e \<Rightarrow> (Inl e, a1)
                  | Inr metrics \<Rightarrow>
                      (case format_answer rt a1 intent metrics of
                         (Inl e, a2) \<Rightarrow> (Inl e, a2)
                       | (Inr answer, a2) \<Rightarrow>
                           (Inr answer,
                            a2\<lparr>conversation_history := conversation_history a2 @
                               [\<lparr>turn_query = user_query, turn_intent = intent,
                                 turn_promql = promql, turn_results = metrics,
                                 turn_answer = answer, turn_model_used = ''gemma''\<rparr>]\<rparr>)))))"

text \<open>\<^verbatim>\<open>process_query\<close>: the \<^verbatim>\<open>try\<close> block and its \<^verbatim>\<open>except Exception\<close> handler.\<close>

definition process_query :: "'n env \<Rightarrow> 'n agent \<Rightarrow> string \<Rightarrow> int \<Rightarrow> string \<times> 'n agent" where
  "process_query rt a user_query datasource_id =
     (case process_query_try rt a user_query datasource_id of
        (Inr answer, a1) \<Rightarrow> (answer, a1)
      | (Inl e, a1) \<Rightarrow> (error_prefix @ exn_str rt e, a1))"

section \<open>The specification's readings of two steps\<close>

text \<open>
  The extractor's post-processing as the specification words it: the first substring of
  the reply (leftmost start, then shortest) that the decoder accepts as a JSON object.
\<close>

definition is_json_object :: "'n env \<Rightarrow> string \<Rightarrow> bool" where
  "is_json_object rt s = (case loads rt s of Inl e \<Rightarrow> False | Inr d \<Rightarrow> True)"

definition substrings :: "string \<Rightarrow> string list" where
  "substrings s =
     concat (map (\<lambda>i. map (\<lambda>n. take n (drop i s)) [1..<Suc (length s - i)]) [0..<length s])"

definition spec_first_json_object :: "'n env \<Rightarrow> string \<Rightarrow> string option" where
  "spec_first_json_object rt s = find (is_json_object rt) (substrings s)"

text \<open>
  The resolution order as the specification words it: a case-insensitive exact match of
  the trimmed reply against a key, then the first key that occurs in the reply without
  regard to case, then the first key.
\<close>

definition spec_resolve :: "schema \<Rightarrow> string \<Rightarrow> string option" where
  "spec_resolve sch text =
     (case find (\<lambda>k. lower k = lower (strip text)) (map fst sch) of
        Some k \<Rightarrow> Some k
      | None \<Rightarrow>
          (case find (\<lambda>k. contains (lower k) (lower text)) (map fst sch) of
             Some k \<Rightarrow> Some k
           | None \<Rightarrow> (case map fst sch of [] \<Rightarrow> None | k # ks \<Rightarrow> Some k)))"

section \<open>A concrete environment\<close>

text \<open>
  An environment to run the definitions in. Numbers are rationals with exact arithmetic.
  The decoder knows seven texts and decodes them as \<^verbatim>\<open>json.loads\<close> does; it rejects every
  other text. The Grafana endpoint has no data for any query.
\<close>

definition demo_loads :: "string \<Rightarrow> rat exn + rat pydict" where
  "demo_loads s =
     (if s = ''{}'' then Inr []
      else if s = ''{\"metric\": null}'' then Inr [(''metric'', JNull)]
      else if s = ''{\"metric\": \"cpu\", \"confidence\": 0.75}''
        then Inr [(''metric'', JStr ''cpu''), (''confidence'', JNum (3 / 4))]
      else if s = ''{\"metric\": \"cpu\", \"confidence\": 0.1}''
        then Inr [(''metric'', JStr ''cpu''), (''confidence'', JNum (1 / 10))]
      else if s = ''{\"metric\": \"cpu\", \"confidence\": \"high\"}''
        then Inr [(''metric'', JStr ''cpu''), (''confidence'', JStr ''high'')]
      else if s = ''{\"metric\": [\"cpu\"]}''
        then Inr [(''metric'', JArr [JStr ''cpu''])]
      else if s = ''{\"metric\": \"cpu_usage\", \"aggregation\": \"max\", \"time_range\": \"1h\"}''
        then Inr [(''metric'', JStr ''cpu_usage''), (''aggregation'', JStr ''max''),
                  (''time_range'', JStr ''1h'')]
      else Inl (External ''JSONDecodeError''))"

definition demo_lit :: "string \<Rightarrow> rat" where
  "demo_lit s =
     (if s = ''0.2'' then 1 / 5 else if s = ''0.3'' then 3 / 10
      else if s = ''0.5'' then 1 / 2 else if s = ''1'' then 1 else 0)"

text \<open>
  \<^verbatim>\<open>repr\<close> and the string form of interpreter exceptions, for the values used below:
  \<^verbatim>\<open>None\<close>, the booleans, and a missing string key.
\<close>

definition demo_repr :: "rat json \<Rightarrow> string" where
  "demo_repr v =
     (case v of
        JNull \<Rightarrow> ''None''
      | JBool b \<Rightarrow> (if b then ''True'' else ''False'')
      | JStr s \<Rightarrow> [CHR 0x27] @ s @ [CHR 0x27]
      | _ \<Rightarrow> ''...'')"

definition demo_builtin_str :: "rat exn \<Rightarrow> string" where
  "demo_builtin_str e =
     (case e of
        KeyError k \<Rightarrow> demo_repr k
      | IndexError \<Rightarrow> ''list index out of range''
      | _ \<Rightarrow> ''...'')"

definition demo_env :: "rat env" where
  "demo_env =
     \<lparr>loads = demo_loads, py_repr = demo_repr, builtin_str = demo_builtin_str,
      num_lit = demo_lit, num_sub = (\<lambda>x y. x - y), num_gt = (\<lambda>x y. x > y),
      num_truth = (\<lambda>x. x \<noteq> 0), grafana_api_key = Some ''key'',
      grafana = (\<lambda>promql ds. Inr [])\<rparr>"

definition demo_schema :: schema where
  "demo_schema =
     [(''cpu_usage'',
        \<lparr>description = ''CPU usage'', unit = Some ''%'', example_query = ''rate(cpu[5m])''\<rparr>),
      (''memory_usage'',
        \<lparr>description = ''Memory usage'', unit = Some ''%'', example_query = ''mem_used''\<rparr>)]"

text \<open>A fresh agent over a schema whose model gives the listed replies, then fails.\<close>

definition replies :: "string list \<Rightarrow> nat \<Rightarrow> rat exn + string" where
  "replies ts k = (if k < length ts then Inr (ts ! k) else Inl (External ''no reply''))"

definition demo_agent :: "schema \<Rightarrow> string list \<Rightarrow> rat agent" where
  "demo_agent sch ts = \<lparr>schema = sch, model = replies ts, calls = 0, conversation_history = []\<rparr>"

text \<open>A schema with the single metric \<^verbatim>\<open>foo\<close>, whose query template is \<^verbatim>\<open>foo[5m]\<close>.\<close>

definition foo_info :: metric_info where
  "foo_info = \<lparr>description = ''Foo'', unit = None, example_query = ''foo[5m]''\<rparr>"

definition foo_schema :: schema where
  "foo_schema = [(''foo'', foo_info)]"

section \<open>Answer Formatter\<close>

text \<open>
  Claim C10. For every intent, when the sequence of results given to the Answer Formatter
  is empty, \<^verbatim>\<open>format_answer\<close> returns the fixed no-data sentence and the agent is left
  as it was: in particular the count of calls to the model is unchanged, so no call to
  the model is made.
\<close>

theorem format_answer_empty:
  "format_answer rt a intent [] = (Inr ''No data found for this metric and time range.'', a)"
  by (simp add: format_answer_def no_data_msg_def)

section \<open>Metric Resolver\<close>

lemma find_closest_metric_text:
  assumes "model a (calls a) = Inr text"
  shows "find_closest_metric a q =
     ((if lower (strip text) \<in> set (map fst (schema a)) then Inr (lower (strip text))
       else (case find (\<lambda>metric. contains (lower metric) (lower text)) (map fst (schema a)) of
               Some metric \<Rightarrow> Inr metric
             | None \<Rightarrow> (case map fst (schema a) of [] \<Rightarrow> Inl IndexError | k # ks \<Rightarrow> Inr k))),
      a\<lparr>calls := Suc (calls a)\<rparr>)"
  using assms
  by (simp add: find_closest_metric_def generate_content_def Let_def split: option.split list.split)

lemma find_closest_metric_error:
  assumes "model a (calls a) = Inl e"
  shows "find_closest_metric a q = (Inl e, a\<lparr>calls := Suc (calls a)\<rparr>)"
  using assms by (simp add: find_closest_metric_def generate_content_def)

lemma find_closest_metric_state:
  "snd (find_closest_metric a q) = a\<lparr>calls := Suc (calls a)\<rparr>"
  by (cases "model a (calls a)") (simp_all add: find_closest_metric_text find_closest_metric_error)

text \<open>Whatever the resolver returns is a key of the schema.\<close>

lemma find_closest_metric_key:
  assumes "find_closest_metric a q = (Inr k, a1)"
  shows "k \<in> set (map fst (schema a))"
proof (cases "model a (calls a)")
  case (Inl e)
  with assms show ?thesis by (simp add: find_closest_metric_error)
next
  case (Inr t)
  show ?thesis
  proof (cases "lower (strip t) \<in> set (map fst (schema a))")
    case True
    with assms Inr show ?thesis by (simp add: find_closest_metric_text)
  next
    case False
    show ?thesis
    proof (cases "find (\<lambda>metric. contains (lower metric) (lower t)) (map fst (schema a))")
      case None
      with assms Inr False show ?thesis
        by (cases "schema a") (auto simp: find_closest_metric_text)
    next
      case (Some m)
      then have "m \<in> set (map fst (schema a))"
        by (auto simp: find_Some_iff)
      with assms Inr False Some show ?thesis by (simp add: find_closest_metric_text)
    qed
  qed
qed

text \<open>
  Claim C1, as amended. For every schema with at least one metric, every user query and
  every reply text of the model, \<^verbatim>\<open>find_closest_metric\<close> returns a key of the schema
  (it does not raise and does not return \<^verbatim>\<open>None\<close>); when neither the exact test nor the
  substring test finds a key, the value returned is the first key of the schema.
\<close>

theorem find_closest_metric_total:
  assumes "schema a \<noteq> []" and "model a (calls a) = Inr text"
  shows "\<exists>k. find_closest_metric a q = (Inr k, a\<lparr>calls := Suc (calls a)\<rparr>)
           \<and> k \<in> set (map fst (schema a))
           \<and> (lower (strip text) \<notin> set (map fst (schema a))
                \<and> (\<forall>m \<in> set (map fst (schema a)). \<not> contains (lower m) (lower text))
              \<longrightarrow> k = fst (hd (schema a)))"
proof -
  obtain r where r: "find_closest_metric a q = (r, a\<lparr>calls := Suc (calls a)\<rparr>)"
    using find_closest_metric_state [of a q] by (cases "find_closest_metric a q") simp
  have "\<exists>k. r = Inr k"
    using r assms
    by (cases "schema a") (auto simp: find_closest_metric_text split: option.splits if_splits)
  then obtain k where k: "r = Inr k" ..
  have key: "k \<in> set (map fst (schema a))"
    using find_closest_metric_key r k by blast
  have fb: "k = fst (hd (schema a))"
    if "lower (strip text) \<notin> set (map fst (schema a))"
      and "\<forall>m \<in> set (map fst (schema a)). \<not> contains (lower m) (lower text)"
  proof -
    have "find (\<lambda>metric. contains (lower metric) (lower text)) (map fst (schema a)) = None"
      using that(2) by (simp add: find_None_iff)
    with that(1) r k assms show ?thesis
      by (cases "schema a") (simp_all add: find_closest_metric_text)
  qed
  from r k key fb show ?thesis by blast
qed

text \<open>
  The theorem at a concrete agent: the schema has two metrics, the model answers
  \<^verbatim>\<open>no idea\<close>, and the resolver falls back to the first key.
\<close>

theorem find_closest_metric_total_witness:
  "schema (demo_agent demo_schema [''no idea'']) \<noteq> []
   \<and> model (demo_agent demo_schema [''no idea''])
        (calls (demo_agent demo_schema [''no idea''])) = Inr ''no idea''
   \<and> fst (find_closest_metric (demo_agent demo_schema [''no idea'']) ''How busy is it?'')
       = Inr ''cpu_usage''"
proof -
  let ?a = "demo_agent demo_schema [''no idea'']"
  have h1: "schema ?a \<noteq> []" by (simp add: demo_agent_def demo_schema_def)
  have h2: "model ?a (calls ?a) = Inr ''no idea''" by (simp add: demo_agent_def replies_def)
  show ?thesis
    using h1 h2 find_closest_metric_total [OF h1 h2, of "''How busy is it?''"]
    by (auto simp: demo_agent_def demo_schema_def strip_def isspace_def lower_def
        lower_char_def isupper_def)
qed

text \<open>
  Claim C1 as stated fails on a schema without metrics: \<^verbatim>\<open>list(self.schema.keys())[0]\<close>
  raises \<^verbatim>\<open>IndexError\<close>.
\<close>

theorem find_closest_metric_empty_schema:
  "fst (find_closest_metric (demo_agent [] [''cpu_usage'']) ''What is the CPU usage?'')
     = Inl IndexError"
  by (simp add: find_closest_metric_def generate_content_def demo_agent_def replies_def
      strip_def isspace_def lower_def)

text \<open>
  Claim C6. The specification's first step is a case-insensitive exact match of the
  trimmed reply against a key. The code lower-cases the reply and tests it against the
  keys as they are written, while its second step lower-cases both sides. With the keys
  \<^verbatim>\<open>a\<close> and \<^verbatim>\<open>AB\<close> and the reply \<^verbatim>\<open>AB\<close>, the exact test misses \<^verbatim>\<open>AB\<close> and the substring
  test returns \<^verbatim>\<open>a\<close>; the order the specification states gives \<^verbatim>\<open>AB\<close>.
\<close>

theorem find_closest_metric_mixed_case_key:
  "fst (find_closest_metric
          (demo_agent [(''a'', info1), (''AB'', info2)] [''AB'']) ''What about AB?'') = Inr ''a''
   \<and> spec_resolve [(''a'', info1), (''AB'', info2)] ''AB'' = Some ''AB''"
  by (simp add: find_closest_metric_def generate_content_def demo_agent_def replies_def
      spec_resolve_def strip_def isspace_def lower_def lower_char_def isupper_def)

section \<open>Query Synthesizer\<close>

text \<open>
  When the metric of the intent is a non-empty name that the schema maps to an entry, the
  guard of \<^verbatim>\<open>build_promql\<close> passes and the query is the wrapped, substituted template.
\<close>

lemma build_promql_known:
  assumes "dict_get intent ''metric'' = JStr m" and "m \<noteq> []"
    and "map_of (schema a) m = Some info"
  shows "build_promql rt a intent =
     Inr (wrap_aggregation (dict_get_default intent ''aggregation'' (JStr ''avg''))
            (substitute_time_range rt (example_query info)
               (dict_get_default intent ''time_range'' (JStr ''5m''))))"
proof -
  have "m \<in> set (map fst (schema a))"
    using assms(3) by (metis map_of_eq_None_iff option.distinct(1) set_map)
  then show ?thesis
    using assms by (simp add: build_promql_def truthy_def in_schema_def schema_lookup_def)
qed

text \<open>
  Claim C7. Let the metric of the intent be a name of the schema. If the query template of
  that metric is \<^verbatim>\<open>foo[5m]\<close>, the aggregation \<^verbatim>\<open>max\<close> and the time range \<^verbatim>\<open>1h\<close>, the
  synthesized query is exactly \<^verbatim>\<open>max(foo[1h])\<close>. The token is substituted only when the
  template contains \<^verbatim>\<open>[5m]\<close> and the time range of the intent differs from \<^verbatim>\<open>5m\<close>:
  otherwise the template is wrapped as it is, and in that case it is the template with
  \<^verbatim>\<open>[5m]\<close> replaced by the time range of the intent in brackets.
\<close>

theorem build_promql_max_1h:
  assumes "dict_get intent ''metric'' = JStr m" and "m \<noteq> []"
    and "map_of (schema a) m = Some info"
  shows "(example_query info = ''foo[5m]''
            \<and> dict_get_default intent ''aggregation'' (JStr ''avg'') = JStr ''max''
            \<and> dict_get_default intent ''time_range'' (JStr ''5m'') = JStr ''1h''
          \<longrightarrow> build_promql rt a intent = Inr ''max(foo[1h])'')
       \<and> (\<not> (contains ''[5m]'' (example_query info)
               \<and> dict_get_default intent ''time_range'' (JStr ''5m'') \<noteq> JStr ''5m'')
          \<longrightarrow> build_promql rt a intent =
                Inr (wrap_aggregation (dict_get_default intent ''aggregation'' (JStr ''avg''))
                       (example_query info)))
       \<and> (contains ''[5m]'' (example_query info)
               \<and> dict_get_default intent ''time_range'' (JStr ''5m'') \<noteq> JStr ''5m''
          \<longrightarrow> build_promql rt a intent =
                Inr (wrap_aggregation (dict_get_default intent ''aggregation'' (JStr ''avg''))
                       (replace ''[5m]''
                          (''['' @ py_str rt (dict_get_default intent ''time_range'' (JStr ''5m'')) @ '']'')
                          (example_query info))))"
  by (simp add: build_promql_known [OF assms] substitute_time_range_def wrap_aggregation_def
      py_str_def)

text \<open>
  Claim C8. Let the metric of the intent be a name of the schema. If the aggregation of
  the intent is none of \<^verbatim>\<open>avg\<close>, \<^verbatim>\<open>max\<close>, \<^verbatim>\<open>min\<close>, \<^verbatim>\<open>sum\<close>, then \<^verbatim>\<open>build_promql\<close>
  returns, without raising, the template with the time range substituted and no wrapping.
\<close>

theorem build_promql_unknown_aggregation:
  assumes "dict_get intent ''metric'' = JStr m" and "m \<noteq> []"
    and "map_of (schema a) m = Some info"
    and "dict_get_default intent ''aggregation'' (JStr ''avg'')
           \<notin> {JStr ''avg'', JStr ''max'', JStr ''min'', JStr ''sum''}"
  shows "build_promql rt a intent =
     Inr (substitute_time_range rt (example_query info)
            (dict_get_default intent ''time_range'' (JStr ''5m'')))"
  using assms(4)
  by (simp add: build_promql_known [OF assms(1-3)] wrap_aggregation_def)


text \<open>
  The theorem at the schema \<^verbatim>\<open>foo\<close>: with the time range \<^verbatim>\<open>1h\<close> the token is replaced,
  and without a time range (the default \<^verbatim>\<open>5m\<close>) the template is kept.
\<close>

theorem build_promql_max_1h_witness:
  "dict_get [(''metric'', JStr ''foo''), (''aggregation'', JStr ''max''), (''time_range'', JStr ''1h'')]
      ''metric'' = (JStr ''foo'' :: rat json)
   \<and> map_of (schema (demo_agent foo_schema [])) ''foo'' = Some foo_info
   \<and> example_query foo_info = ''foo[5m]''
   \<and> build_promql demo_env (demo_agent foo_schema [])
        [(''metric'', JStr ''foo''), (''aggregation'', JStr ''max''), (''time_range'', JStr ''1h'')]
       = Inr ''max(foo[1h])''
   \<and> build_promql demo_env (demo_agent foo_schema [])
        [(''metric'', JStr ''foo''), (''aggregation'', JStr ''max'')]
       = Inr ''max(foo[5m])''"
proof -
  let ?a = "demo_agent foo_schema []"
  let ?i = "[(''metric'', JStr ''foo''), (''aggregation'', JStr ''max''),
             (''time_range'', JStr ''1h'')] :: rat pydict"
  let ?j = "[(''metric'', JStr ''foo''), (''aggregation'', JStr ''max'')] :: rat pydict"
  have m: "map_of (schema ?a) ''foo'' = Some foo_info"
    by (simp add: demo_agent_def foo_schema_def)
  have i: "dict_get ?i ''metric'' = JStr ''foo''" by (simp add: dict_get_def)
  have j: "dict_get ?j ''metric'' = JStr ''foo''" by (simp add: dict_get_def)
  have n: "''foo'' \<noteq> []" by simp
  show ?thesis
    using build_promql_max_1h [OF i n m, of demo_env] build_promql_max_1h [OF j n m, of demo_env]
      m i
    by (simp add: foo_info_def dict_get_default_def wrap_aggregation_def)
qed

text \<open>The theorem at the schema \<^verbatim>\<open>foo\<close> with the aggregation \<^verbatim>\<open>p99\<close>.\<close>

theorem build_promql_unknown_aggregation_witness:
  "dict_get [(''metric'', JStr ''foo''), (''aggregation'', JStr ''p99''), (''time_range'', JStr ''1h'')]
      ''metric'' = (JStr ''foo'' :: rat json)
   \<and> map_of (schema (demo_agent foo_schema [])) ''foo'' = Some foo_info
   \<and> build_promql demo_env (demo_agent foo_schema [])
        [(''metric'', JStr ''foo''), (''aggregation'', JStr ''p99''), (''time_range'', JStr ''1h'')]
       = Inr ''foo[1h]''"
proof -
  let ?a = "demo_agent foo_schema []"
  let ?i = "[(''metric'', JStr ''foo''), (''aggregation'', JStr ''p99''),
             (''time_range'', JStr ''1h'')] :: rat pydict"
  have m: "map_of (schema ?a) ''foo'' = Some foo_info"
    by (simp add: demo_agent_def foo_schema_def)
  have i: "dict_get ?i ''metric'' = JStr ''foo''" by (simp add: dict_get_def)
  have n: "''foo'' \<noteq> []" by simp
  have g: "dict_get_default ?i ''aggregation'' (JStr ''avg'')
             \<notin> {JStr ''avg'', JStr ''max'', JStr ''min'', JStr ''sum''}"
    by (simp add: dict_get_default_def)
  show ?thesis
    using build_promql_unknown_aggregation [OF i n m g, of demo_env] m i
    by (simp add: foo_info_def dict_get_default_def substitute_time_range_def py_str_def)
qed

section \<open>Intent Extractor\<close>

subsection \<open>Dictionary updates\<close>

lemma map_of_dict_set: "map_of (dict_set k v d) = (map_of d)(k \<mapsto> v)"
  by (induction d) (auto simp: fun_eq_iff)

lemma dict_get_dict_set:
  "dict_get (dict_set k v d) k' = (if k' = k then v else dict_get d k')"
  by (simp add: dict_get_def map_of_dict_set)

lemma dict_get_default_dict_set:
  "dict_get_default (dict_set k v d) k' dflt = (if k' = k then v else dict_get_default d k' dflt)"
  by (simp add: dict_get_default_def map_of_dict_set)

subsection \<open>The branches of the extractor\<close>

lemma parse_user_query_reply_error:
  assumes "model a (calls a) = Inl e"
  shows "parse_user_query rt a q = (Inl e, a\<lparr>calls := Suc (calls a)\<rparr>)"
  using assms by (simp add: parse_user_query_def generate_content_def)

lemma parse_user_query_no_match:
  assumes "model a (calls a) = Inr text" and "json_match (strip text) = None"
  shows "parse_user_query rt a q = (Inl (ValueError no_json_msg), a\<lparr>calls := Suc (calls a)\<rparr>)"
  using assms by (simp add: parse_user_query_def generate_content_def)

lemma parse_user_query_decode_error:
  assumes "model a (calls a) = Inr text" and "json_match (strip text) = Some js"
    and "loads rt js = Inl e"
  shows "parse_user_query rt a q = (Inl e, a\<lparr>calls := Suc (calls a)\<rparr>)"
  using assms by (simp add: parse_user_query_def generate_content_def)

lemma parse_user_query_decoded:
  assumes "model a (calls a) = Inr text" and "json_match (strip text) = Some js"
    and "loads rt js = Inr d"
  shows "parse_user_query rt a q =
     (case in_schema (schema a) (dict_get d ''metric'') of
        Inl e \<Rightarrow> (Inl e, a\<lparr>calls := Suc (calls a)\<rparr>)
      | Inr present \<Rightarrow>
          if \<not> present \<and> dict_get d ''metric'' \<noteq> JNull then
            (case find_closest_metric (a\<lparr>calls := Suc (calls a)\<rparr>) q of
               (Inl e, a2) \<Rightarrow> (Inl e, a2)
             | (Inr metric, a2) \<Rightarrow>
                 (case py_sub rt (dict_get_default d ''confidence'' (JNum (num_lit rt ''0.5'')))
                         (num_lit rt ''0.2'') of
                    Inl e \<Rightarrow> (Inl e, a2)
                  | Inr c \<Rightarrow>
                      (Inr (dict_set ''confidence'' (JNum (py_max rt (num_lit rt ''0.3'') c))
                              (dict_set ''metric'' (JStr metric) d)), a2)))
          else (Inr d, a\<lparr>calls := Suc (calls a)\<rparr>))"
  using assms
  by (simp add: parse_user_query_def generate_content_def Let_def dict_get_default_dict_set
      split: sum.split prod.split)

text \<open>
  The metric of an intent returned by the extractor is \<^verbatim>\<open>None\<close> or a key of the schema.
\<close>

lemma parse_user_query_metric:
  assumes "parse_user_query rt a q = (Inr intent, a1)"
    and "dict_get intent ''metric'' \<noteq> JNull"
  shows "\<exists>k. dict_get intent ''metric'' = JStr k \<and> k \<in> set (map fst (schema a))"
proof (cases "model a (calls a)")
  case (Inl e)
  with assms show ?thesis by (simp add: parse_user_query_reply_error)
next
  case (Inr t)
  show ?thesis
  proof (cases "json_match (strip t)")
    case None
    with assms Inr show ?thesis by (simp add: parse_user_query_no_match)
  next
    case (Some js)
    show ?thesis
    proof (cases "loads rt js")
      case (Inl e)
      with assms Inr Some show ?thesis by (simp add: parse_user_query_decode_error)
    next
      case d: (Inr d)
      note dec = parse_user_query_decoded [OF Inr Some d, of q]
      show ?thesis
      proof (cases "in_schema (schema a) (dict_get d ''metric'')")
        case (Inl e)
        with assms dec show ?thesis by simp
      next
        case p: (Inr present)
        show ?thesis
        proof (cases "\<not> present \<and> dict_get d ''metric'' \<noteq> JNull")
          case False
          with assms dec p have eq: "intent = d" and pr: "present" by auto
          from p pr obtain k where "dict_get d ''metric'' = JStr k" "k \<in> set (map fst (schema a))"
            by (auto simp: in_schema_def split: json.splits)
          with eq show ?thesis by simp
        next
          case True
          obtain r a2 where f: "find_closest_metric (a\<lparr>calls := Suc (calls a)\<rparr>) q = (r, a2)"
            by (cases "find_closest_metric (a\<lparr>calls := Suc (calls a)\<rparr>) q")
          with assms dec p True obtain m where m: "r = Inr m"
            by (cases r) auto
          have key: "m \<in> set (map fst (schema a))"
            using find_closest_metric_key [of "a\<lparr>calls := Suc (calls a)\<rparr>" q m a2] f m by simp
          from assms(1) dec p True f m have "dict_get intent ''metric'' = JStr m"
            by (auto simp: dict_get_dict_set split: sum.splits)
          with key show ?thesis by simp
        qed
      qed
    qed
  qed
qed


subsection \<open>The match of the regular expression\<close>

lemma dropWhile_first:
  assumes "x \<in> set s"
  shows "\<exists>p t. s = p @ x # t \<and> x \<notin> set p \<and> dropWhile (\<lambda>c. c \<noteq> x) s = x # t"
  using assms
proof (induction s)
  case Nil
  then show ?case by simp
next
  case (Cons c s)
  show ?case
  proof (cases "c = x")
    case True
    then have "c # s = [] @ x # s \<and> x \<notin> set [] \<and> dropWhile (\<lambda>c. c \<noteq> x) (c # s) = x # s"
      by simp
    then show ?thesis by blast
  next
    case False
    with Cons obtain p t where "s = p @ x # t" "x \<notin> set p" "dropWhile (\<lambda>c. c \<noteq> x) s = x # t"
      by auto
    with False have "c # s = (c # p) @ x # t \<and> x \<notin> set (c # p)
        \<and> dropWhile (\<lambda>c. c \<noteq> x) (c # s) = x # t"
      by simp
    then show ?thesis by blast
  qed
qed

lemma dropWhile_absent: "x \<notin> set s \<Longrightarrow> dropWhile (\<lambda>c. c \<noteq> x) s = []"
  by (induction s) auto

lemma dropWhile_skip: "x \<notin> set p \<Longrightarrow> dropWhile (\<lambda>c. c \<noteq> x) (p @ x # t) = x # t"
  by (induction p) auto

lemma json_match_span:
  assumes "CHR ''{'' \<notin> set pre" and "CHR ''}'' \<notin> set post"
  shows "json_match (pre @ CHR ''{'' # body @ CHR ''}'' # post) = Some (CHR ''{'' # body @ [CHR ''}''])"
proof -
  have 1: "dropWhile (\<lambda>c. c \<noteq> CHR ''{'') (pre @ CHR ''{'' # body @ CHR ''}'' # post)
      = CHR ''{'' # body @ CHR ''}'' # post"
    using assms(1) by (simp add: dropWhile_skip)
  have 2: "dropWhile (\<lambda>c. c \<noteq> CHR ''}'') (rev post @ CHR ''}'' # rev body) = CHR ''}'' # rev body"
    using assms(2) by (simp add: dropWhile_skip)
  show ?thesis by (simp add: json_match_def 1 2)
qed

lemma json_match_SomeD:
  assumes "json_match s = Some m"
  shows "\<exists>pre body post. s = pre @ m @ post \<and> m = CHR ''{'' # body @ [CHR ''}'']
           \<and> CHR ''{'' \<notin> set pre \<and> CHR ''}'' \<notin> set post"
proof (cases "CHR ''{'' \<in> set s")
  case False
  then show ?thesis using assms by (simp add: json_match_def dropWhile_absent)
next
  case True
  from dropWhile_first [OF True] obtain p t where
    s: "s = p @ CHR ''{'' # t" and p: "CHR ''{'' \<notin> set p"
    and d: "dropWhile (\<lambda>c. c \<noteq> CHR ''{'') s = CHR ''{'' # t" by blast
  show ?thesis
  proof (cases "CHR ''}'' \<in> set (rev t)")
    case False
    then show ?thesis using assms d by (simp add: json_match_def dropWhile_absent)
  next
    case True
    from dropWhile_first [OF True] obtain u r where
      t: "rev t = u @ CHR ''}'' # r" and u: "CHR ''}'' \<notin> set u"
      and e: "dropWhile (\<lambda>c. c \<noteq> CHR ''}'') (rev t) = CHR ''}'' # r" by blast
    from t have t': "t = rev r @ CHR ''}'' # rev u"
      by (metis rev_rev_ident rev_append rev.simps(2) append_Cons append_Nil append_assoc)
    from assms d e have m: "m = CHR ''{'' # rev r @ [CHR ''}'']"
      by (simp add: json_match_def)
    have "s = p @ m @ rev u" using s t' m by simp
    moreover have "CHR ''}'' \<notin> set (rev u)" using u by simp
    ultimately show ?thesis using m p by blast
  qed
qed

lemma json_match_None_iff:
  "json_match s = None \<longleftrightarrow> \<not> (\<exists>pre body post. s = pre @ CHR ''{'' # body @ CHR ''}'' # post)"
proof
  assume n: "json_match s = None"
  show "\<not> (\<exists>pre body post. s = pre @ CHR ''{'' # body @ CHR ''}'' # post)"
  proof
    assume "\<exists>pre body post. s = pre @ CHR ''{'' # body @ CHR ''}'' # post"
    then obtain pre body post where s: "s = pre @ CHR ''{'' # body @ CHR ''}'' # post" by blast
    then have "CHR ''{'' \<in> set s" by simp
    from dropWhile_first [OF this] obtain p t where
      s': "s = p @ CHR ''{'' # t" and p: "CHR ''{'' \<notin> set p"
      and d: "dropWhile (\<lambda>c. c \<noteq> CHR ''{'') s = CHR ''{'' # t" by blast
    have "CHR ''}'' \<in> set t"
      using s s' p by (auto simp: append_eq_append_conv2 Cons_eq_append_conv append_eq_Cons_conv)
    then have "CHR ''}'' \<in> set (rev t)" by simp
    from dropWhile_first [OF this] obtain u r where
      "dropWhile (\<lambda>c. c \<noteq> CHR ''}'') (rev t) = CHR ''}'' # r" by blast
    with d n show False by (simp add: json_match_def)
  qed
next
  assume a: "\<not> (\<exists>pre body post. s = pre @ CHR ''{'' # body @ CHR ''}'' # post)"
  show "json_match s = None"
  proof (cases "json_match s")
    case None
    then show ?thesis .
  next
    case (Some m)
    from json_match_SomeD [OF Some] obtain pre body post where
      "s = pre @ m @ post" "m = CHR ''{'' # body @ [CHR ''}'']" by blast
    then have "s = pre @ CHR ''{'' # body @ CHR ''}'' # post" by simp
    with a show ?thesis by blast
  qed
qed


text \<open>
  Claim C5, as amended. The post-processing takes the part of the reply from its first
  opening brace to its last closing brace. It finds nothing exactly when no opening
  brace is followed by a closing brace; commentary before the object is tolerated when
  it has no opening brace, and commentary after it when it has no closing brace. When
  nothing is found the extractor raises the \<^verbatim>\<open>ValueError\<close> of the missing JSON; when the
  part found does not decode, the decoder's exception is raised.
\<close>

theorem json_match_first_to_last_brace:
  "(json_match s = None \<longleftrightarrow> \<not> (\<exists>pre body post. s = pre @ CHR ''{'' # body @ CHR ''}'' # post))
   \<and> (CHR ''{'' \<notin> set pre \<and> CHR ''}'' \<notin> set post
        \<longrightarrow> json_match (pre @ CHR ''{'' # body @ CHR ''}'' # post) = Some (CHR ''{'' # body @ [CHR ''}'']))
   \<and> (model a (calls a) = Inr text \<and> json_match (strip text) = None
        \<longrightarrow> parse_user_query rt a q =
              (Inl (ValueError ''No valid JSON found in Gemma response''), a\<lparr>calls := Suc (calls a)\<rparr>))
   \<and> (model a (calls a) = Inr text \<and> json_match (strip text) = Some js \<and> loads rt js = Inl e
        \<longrightarrow> parse_user_query rt a q = (Inl e, a\<lparr>calls := Suc (calls a)\<rparr>))"
  using json_match_None_iff [of s] json_match_span [of pre post body]
    parse_user_query_no_match [of a "text" rt q]
    parse_user_query_decode_error [of a "text" js rt e q]
  by (simp add: no_json_msg_def)

text \<open>
  The theorem on four replies: an object inside commentary, a reply whose braces are in
  the wrong order, a reply without braces, and an object followed by a smiley.
\<close>

theorem json_match_first_to_last_brace_witness:
  "json_match ''Sure: {\"metric\": null} Hope this helps.'' = Some ''{\"metric\": null}''
   \<and> json_match ''} no object {'' = None
   \<and> fst (parse_user_query demo_env (demo_agent demo_schema [''I do not know'']) ''How busy is it?'')
       = Inl (ValueError ''No valid JSON found in Gemma response'')
   \<and> fst (parse_user_query demo_env (demo_agent demo_schema [''{\"metric\": null} :-}'']) ''How busy is it?'')
       = Inl (External ''JSONDecodeError'')"
proof -
  let ?a = "demo_agent demo_schema [''I do not know'']"
  let ?b = "demo_agent demo_schema [''{\"metric\": null} :-}'']"
  have a1: "model ?a (calls ?a) = Inr ''I do not know''"
    by (simp add: demo_agent_def replies_def)
  have a2: "json_match (strip ''I do not know'') = None"
    by (simp add: json_match_def strip_def isspace_def)
  have b1: "model ?b (calls ?b) = Inr ''{\"metric\": null} :-}''"
    by (simp add: demo_agent_def replies_def)
  have b2: "json_match (strip ''{\"metric\": null} :-}'') = Some ''{\"metric\": null} :-}''"
    by (simp add: json_match_def strip_def isspace_def)
  have b3: "loads demo_env ''{\"metric\": null} :-}'' = Inl (External ''JSONDecodeError'')"
    by (simp add: demo_env_def demo_loads_def)
  have c1: "CHR ''{'' \<notin> set ''Sure: '' \<and> CHR ''}'' \<notin> set '' Hope this helps.''"
    by simp
  note T1 = json_match_first_to_last_brace
      [of "''} no object {''" "''Sure: ''" "'' Hope this helps.''" "''\"metric\": null''"
          ?a "''I do not know''" demo_env "''How busy is it?''"
          "''{\"metric\": null} :-}''" "External ''JSONDecodeError''"]
  note T2 = json_match_first_to_last_brace
      [of "''} no object {''" "''Sure: ''" "'' Hope this helps.''" "''\"metric\": null''"
          ?b "''{\"metric\": null} :-}''" demo_env "''How busy is it?''"
          "''{\"metric\": null} :-}''" "External ''JSONDecodeError''"]
  have A: "json_match (''Sure: '' @ CHR ''{'' # ''\"metric\": null'' @ CHR ''}'' # '' Hope this helps.'')
      = Some (CHR ''{'' # ''\"metric\": null'' @ [CHR ''}''])"
    using T1 c1 by blast
  have B: "parse_user_query demo_env ?a ''How busy is it?'' =
      (Inl (ValueError ''No valid JSON found in Gemma response''), ?a\<lparr>calls := Suc (calls ?a)\<rparr>)"
    using T1 a1 a2 by blast
  have C: "parse_user_query demo_env ?b ''How busy is it?'' =
      (Inl (External ''JSONDecodeError''), ?b\<lparr>calls := Suc (calls ?b)\<rparr>)"
    using T2 b1 b2 b3 by blast
  have D: "json_match ''} no object {'' = None"
    by (simp add: json_match_def)
  from A have A': "json_match ''Sure: {\"metric\": null} Hope this helps.'' = Some ''{\"metric\": null}''"
    by simp
  show ?thesis
    using A' B C D by simp
qed

text \<open>
  Claim C5 as stated fails on the reply \<^verbatim>\<open>{"metric": null} :-}\<close>: its first well-formed
  JSON object is \<^verbatim>\<open>{"metric": null}\<close>, but the match runs to the last closing brace,
  the decoder rejects it and the extractor raises.
\<close>

theorem json_match_not_first_object:
  "json_match (strip ''{\"metric\": null} :-}'') = Some ''{\"metric\": null} :-}''
   \<and> spec_first_json_object demo_env ''{\"metric\": null} :-}'' = Some ''{\"metric\": null}''
   \<and> fst (parse_user_query demo_env (demo_agent demo_schema [''{\"metric\": null} :-}''])
          ''How busy is it?'') = Inl (External ''JSONDecodeError'')"
  by (simp add: json_match_def strip_def isspace_def spec_first_json_object_def substrings_def
      upt_conv_Cons is_json_object_def demo_env_def demo_loads_def parse_user_query_def
      generate_content_def demo_agent_def replies_def)

subsection \<open>Repair of a metric outside the schema\<close>




section \<open>The metric check of the Query Synthesizer\<close>

lemma build_promql_falsy:
  assumes "\<not> truthy rt (dict_get i ''metric'')"
  shows "build_promql rt a i = Inl (ValueError (unknown_metric_msg rt (dict_get i ''metric'')))"
  using assms by (simp add: build_promql_def Let_def)

lemma build_promql_absent:
  assumes "in_schema (schema a) (dict_get i ''metric'') = Inr False"
  shows "build_promql rt a i = Inl (ValueError (unknown_metric_msg rt (dict_get i ''metric'')))"
  using assms
  by (cases "truthy rt (dict_get i ''metric'')") (simp_all add: build_promql_def Let_def)

lemma build_promql_unhashable:
  assumes "truthy rt (dict_get i ''metric'')"
    and "in_schema (schema a) (dict_get i ''metric'') = Inl e"
  shows "build_promql rt a i = Inl (TypeError_unhashable (dict_get i ''metric''))"
  using assms by (auto simp: build_promql_def Let_def in_schema_def split: json.splits)

lemma build_promql_present:
  assumes "truthy rt (dict_get i ''metric'')"
    and "in_schema (schema a) (dict_get i ''metric'') = Inr True"
  shows "\<exists>query. build_promql rt a i = Inr query"
proof -
  from assms(2) obtain m where m: "dict_get i ''metric'' = JStr m" "m \<in> set (map fst (schema a))"
    by (auto simp: in_schema_def split: json.splits)
  from assms(1) m(1) have "m \<noteq> []" by (simp add: truthy_def)
  moreover from m(2) obtain info where "map_of (schema a) m = Some info"
    by (metis map_of_eq_None_iff not_Some_eq set_map)
  ultimately show ?thesis using build_promql_known [OF m(1)] by blast
qed

lemma build_promql_value_error_iff:
  "(\<exists>msg. build_promql rt a i = Inl (ValueError msg)) \<longleftrightarrow>
     \<not> truthy rt (dict_get i ''metric'') \<or> in_schema (schema a) (dict_get i ''metric'') = Inr False"
proof (cases "truthy rt (dict_get i ''metric'')")
  case False
  then show ?thesis using build_promql_falsy [of rt i a] by simp
next
  case True
  show ?thesis
  proof (cases "in_schema (schema a) (dict_get i ''metric'')")
    case (Inl e)
    then show ?thesis using True build_promql_unhashable [OF True Inl] by simp
  next
    case (Inr present)
    show ?thesis
    proof (cases present)
      case True
      with Inr \<open>truthy rt (dict_get i ''metric'')\<close> build_promql_present [of rt i a]
      show ?thesis by auto
    next
      case False
      with Inr build_promql_absent [of a i rt] show ?thesis by simp
    qed
  qed
qed

text \<open>
  Claim C2, as amended. In every intent returned by the extractor, a metric that is not
  \<^verbatim>\<open>None\<close> is a key of the schema. \<^verbatim>\<open>build_promql\<close> raises its \<^verbatim>\<open>ValueError\<close> exactly
  when the metric is falsy or, by the code's test, not a key of the schema: for a missing
  or null metric always, and for a metric that is a string exactly when the string is
  empty or not a key of the schema.
\<close>

theorem synthesis_metric_guard:
  "(parse_user_query rt a q = (Inr intent, a1) \<and> dict_get intent ''metric'' \<noteq> JNull
      \<longrightarrow> (\<exists>k. dict_get intent ''metric'' = JStr k \<and> k \<in> set (map fst (schema a))))
   \<and> ((\<exists>msg. build_promql rt a i = Inl (ValueError msg)) \<longleftrightarrow>
          \<not> truthy rt (dict_get i ''metric'')
          \<or> in_schema (schema a) (dict_get i ''metric'') = Inr False)
   \<and> (dict_get i ''metric'' = JNull
      \<longrightarrow> build_promql rt a i = Inl (ValueError (unknown_metric_msg rt JNull)))
   \<and> (dict_get i ''metric'' = JStr m
      \<longrightarrow> (build_promql rt a i = Inl (ValueError (unknown_metric_msg rt (JStr m)))
             \<longleftrightarrow> m = [] \<or> m \<notin> set (map fst (schema a))))"
proof (intro conjI impI)
  assume "parse_user_query rt a q = (Inr intent, a1) \<and> dict_get intent ''metric'' \<noteq> JNull"
  then show "\<exists>k. dict_get intent ''metric'' = JStr k \<and> k \<in> set (map fst (schema a))"
    using parse_user_query_metric by blast
next
  show "(\<exists>msg. build_promql rt a i = Inl (ValueError msg)) \<longleftrightarrow>
          \<not> truthy rt (dict_get i ''metric'')
          \<or> in_schema (schema a) (dict_get i ''metric'') = Inr False"
    by (rule build_promql_value_error_iff)
next
  assume "dict_get i ''metric'' = JNull"
  then show "build_promql rt a i = Inl (ValueError (unknown_metric_msg rt JNull))"
    using build_promql_falsy [of rt i a] by (simp add: truthy_def)
next
  assume m: "dict_get i ''metric'' = JStr m"
  have t: "truthy rt (dict_get i ''metric'') \<longleftrightarrow> m \<noteq> []"
    using m by (simp add: truthy_def)
  have s: "in_schema (schema a) (dict_get i ''metric'') = Inr False
             \<longleftrightarrow> m \<notin> set (map fst (schema a))"
    using m by (simp add: in_schema_def)
  show "build_promql rt a i = Inl (ValueError (unknown_metric_msg rt (JStr m)))
          \<longleftrightarrow> m = [] \<or> m \<notin> set (map fst (schema a))"
  proof
    assume "build_promql rt a i = Inl (ValueError (unknown_metric_msg rt (JStr m)))"
    then have "\<exists>msg. build_promql rt a i = Inl (ValueError msg)" by blast
    then have "\<not> truthy rt (dict_get i ''metric'')
        \<or> in_schema (schema a) (dict_get i ''metric'') = Inr False"
      using build_promql_value_error_iff [of rt a i] by blast
    then show "m = [] \<or> m \<notin> set (map fst (schema a))"
      unfolding t s by blast
  next
    assume "m = [] \<or> m \<notin> set (map fst (schema a))"
    then have "\<not> truthy rt (dict_get i ''metric'')
        \<or> in_schema (schema a) (dict_get i ''metric'') = Inr False"
      unfolding t s by blast
    then show "build_promql rt a i = Inl (ValueError (unknown_metric_msg rt (JStr m)))"
      using build_promql_falsy [of rt i a] build_promql_absent [of a i rt] m by auto
  qed
qed

text \<open>
  Claim C2 as stated fails on a schema that has the empty string as a key: the metric
  \<^verbatim>\<open>""\<close> is not null and is a key of the schema, and \<^verbatim>\<open>build_promql\<close> raises, because
  \<^verbatim>\<open>not metric\<close> holds for the empty string.
\<close>

theorem build_promql_empty_name:
  "dict_get [(''metric'', JStr [])] ''metric'' \<noteq> (JNull :: rat json)
   \<and> [] \<in> set (map fst (schema (demo_agent [([], foo_info)] [])))
   \<and> build_promql demo_env (demo_agent [([], foo_info)] []) [(''metric'', JStr [])]
       = Inl (ValueError (''Metric '' @ [CHR 0x27, CHR 0x27] @ '' not in schema''))"
  by (simp add: dict_get_def demo_agent_def build_promql_def truthy_def unknown_metric_msg_def
      py_str_def)

text \<open>
  The theorem at concrete inputs: an intent returned by the extractor with the metric
  \<^verbatim>\<open>cpu_usage\<close>, and synthesis for the unknown metric \<^verbatim>\<open>disk\<close> and for an intent without a
  metric.
\<close>

theorem synthesis_metric_guard_witness:
  "fst (parse_user_query demo_env
          (demo_agent demo_schema
             [''{\"metric\": \"cpu_usage\", \"aggregation\": \"max\", \"time_range\": \"1h\"}''])
          ''What was the peak CPU usage in the last hour?'')
     = Inr [(''metric'', JStr ''cpu_usage''), (''aggregation'', JStr ''max''),
            (''time_range'', JStr ''1h'')]
   \<and> ''cpu_usage'' \<in> set (map fst demo_schema)
   \<and> ''disk'' \<notin> set (map fst demo_schema)
   \<and> build_promql demo_env (demo_agent demo_schema []) [(''metric'', JStr ''disk'')]
       = Inl (ValueError (''Metric '' @ [CHR 0x27] @ ''disk'' @ [CHR 0x27] @ '' not in schema''))
   \<and> build_promql demo_env (demo_agent demo_schema []) []
       = Inl (ValueError (''Metric '' @ [CHR 0x27] @ ''None'' @ [CHR 0x27] @ '' not in schema''))"
proof -
  let ?t = "''{\"metric\": \"cpu_usage\", \"aggregation\": \"max\", \"time_range\": \"1h\"}''"
  let ?a = "demo_agent demo_schema [?t]"
  let ?b = "demo_agent demo_schema []"
  let ?q = "''What was the peak CPU usage in the last hour?''"
  let ?d = "[(''metric'', JStr ''cpu_usage''), (''aggregation'', JStr ''max''),
             (''time_range'', JStr ''1h'')] :: rat pydict"
  let ?i = "[(''metric'', JStr ''disk'')] :: rat pydict"
  let ?j = "[] :: rat pydict"
  have P: "parse_user_query demo_env ?a ?q = (Inr ?d, ?a\<lparr>calls := Suc 0\<rparr>)"
    by (simp add: parse_user_query_def generate_content_def demo_agent_def replies_def
        strip_def isspace_def json_match_def demo_env_def demo_loads_def dict_get_def
        in_schema_def demo_schema_def)
  have n: "dict_get ?d ''metric'' \<noteq> JNull" by (simp add: dict_get_def)
  have k: "\<exists>k. dict_get ?d ''metric'' = JStr k \<and> k \<in> set (map fst (schema ?a))"
    using synthesis_metric_guard
      [of demo_env ?a ?q ?d "?a\<lparr>calls := Suc 0\<rparr>" ?i "''disk''"] P n
    by blast
  have i: "dict_get ?i ''metric'' = JStr ''disk''" by (simp add: dict_get_def)
  have j: "dict_get ?j ''metric'' = JNull" by (simp add: dict_get_def)
  have x: "''disk'' \<notin> set (map fst (schema ?b))" by (simp add: demo_agent_def demo_schema_def)
  have I: "build_promql demo_env ?b ?i = Inl (ValueError (unknown_metric_msg demo_env (JStr ''disk'')))"
    using synthesis_metric_guard
      [of demo_env ?b ?q ?d "?a\<lparr>calls := Suc 0\<rparr>" ?i "''disk''"] i x
    by blast
  have J: "build_promql demo_env ?b ?j = Inl (ValueError (unknown_metric_msg demo_env JNull))"
    using synthesis_metric_guard
      [of demo_env ?b ?q ?d "?a\<lparr>calls := Suc 0\<rparr>" ?j "''disk''"] j
    by blast
  from k have k': "''cpu_usage'' \<in> set (map fst demo_schema)"
    by (simp add: dict_get_def demo_agent_def)
  show ?thesis
    using P k' x I J
    by (simp add: unknown_metric_msg_def py_str_def demo_env_def demo_repr_def demo_agent_def)
qed

section \<open>Pipeline Orchestrator\<close>

subsection \<open>The stages of the \<^verbatim>\<open>try\<close> block\<close>

lemma process_query_try_parse_error:
  assumes "parse_user_query rt a q = (Inl e, a1)"
  shows "process_query_try rt a q ds = (Inl e, a1)"
  using assms by (simp add: process_query_try_def)

lemma process_query_try_not_understood:
  assumes "parse_user_query rt a q = (Inr intent, a1)"
    and "\<not> truthy rt (dict_get intent ''metric'')"
  shows "process_query_try rt a q ds = (Inr not_understood_msg, a1)"
  using assms by (simp add: process_query_try_def)

lemma process_query_try_build_error:
  assumes "parse_user_query rt a q = (Inr intent, a1)"
    and "truthy rt (dict_get intent ''metric'')"
    and "build_promql rt a1 intent = Inl e"
  shows "process_query_try rt a q ds = (Inl e, a1)"
  using assms by (simp add: process_query_try_def)

lemma process_query_try_backend_error:
  assumes "parse_user_query rt a q = (Inr intent, a1)"
    and "truthy rt (dict_get intent ''metric'')"
    and "build_promql rt a1 intent = Inr promql"
    and "execute_promql rt promql ds = Inl e"
  shows "process_query_try rt a q ds = (Inl e, a1)"
  using assms by (simp add: process_query_try_def)

lemma process_query_try_format_error:
  assumes "parse_user_query rt a q = (Inr intent, a1)"
    and "truthy rt (dict_get intent ''metric'')"
    and "build_promql rt a1 intent = Inr promql"
    and "execute_promql rt promql ds = Inr metrics"
    and "format_answer rt a1 intent metrics = (Inl e, a2)"
  shows "process_query_try rt a q ds = (Inl e, a2)"
  using assms by (simp add: process_query_try_def)

lemma process_query_error:
  assumes "process_query_try rt a q ds = (Inl e, a1)"
  shows "process_query rt a q ds = (error_prefix @ exn_str rt e, a1)"
  using assms by (simp add: process_query_def)

lemma process_query_answer:
  assumes "process_query_try rt a q ds = (Inr answer, a1)"
  shows "process_query rt a q ds = (answer, a1)"
  using assms by (simp add: process_query_def)

text \<open>
  Claim C3. \<^verbatim>\<open>process_query\<close> returns a string in every case (it is a total function
  into strings: no exception leaves it). Whenever its \<^verbatim>\<open>try\<close> block fails with an
  exception \<open>e\<close>, the string returned is the fixed sentence followed by the string form
  of \<open>e\<close>; this is so in particular when extraction fails, when the backend call fails
  and when formatting fails. (Synthesis is covered by the first statement.)
\<close>

theorem process_query_catches:
  "(process_query_try rt a q ds = (Inl e, a1)
      \<longrightarrow> process_query rt a q ds =
            (''I encountered an error while processing your query: '' @ exn_str rt e, a1))
   \<and> (parse_user_query rt a q = (Inl e, a1)
      \<longrightarrow> process_query rt a q ds =
            (''I encountered an error while processing your query: '' @ exn_str rt e, a1))
   \<and> (parse_user_query rt a q = (Inr intent, a1) \<and> truthy rt (dict_get intent ''metric'')
        \<and> build_promql rt a1 intent = Inr promql \<and> execute_promql rt promql ds = Inl e
      \<longrightarrow> process_query rt a q ds =
            (''I encountered an error while processing your query: '' @ exn_str rt e, a1))
   \<and> (parse_user_query rt a q = (Inr intent, a1) \<and> truthy rt (dict_get intent ''metric'')
        \<and> build_promql rt a1 intent = Inr promql \<and> execute_promql rt promql ds = Inr metrics
        \<and> format_answer rt a1 intent metrics = (Inl e, a2)
      \<longrightarrow> process_query rt a q ds =
            (''I encountered an error while processing your query: '' @ exn_str rt e, a2))"
  using process_query_error [of rt a q ds e]
    process_query_try_parse_error [of rt a q e a1 ds]
    process_query_try_backend_error [of rt a q intent a1 promql ds e]
    process_query_try_format_error [of rt a q intent a1 promql ds metrics e a2]
  by (auto simp: error_prefix_def)

subsection \<open>The branch for a metric that was not understood\<close>

lemma parse_user_query_metric_kept:
  assumes "model a (calls a) = Inr t" and "json_match (strip t) = Some js"
    and "loads rt js = Inr d" and "dict_get d ''metric'' \<noteq> JNull"
    and "parse_user_query rt a q = (Inr intent, a1)"
  shows "dict_get intent ''metric'' \<noteq> JNull"
proof -
  note dec = parse_user_query_decoded [OF assms(1-3), of q]
  show ?thesis
  proof (cases "in_schema (schema a) (dict_get d ''metric'')")
    case (Inl e)
    with assms(5) dec show ?thesis by simp
  next
    case (Inr present)
    show ?thesis
    proof (cases present)
      case True
      with assms dec Inr show ?thesis by auto
    next
      case False
      with assms dec Inr show ?thesis
        by (auto simp: dict_get_dict_set split: prod.splits sum.splits)
    qed
  qed
qed

lemma parse_user_query_null:
  assumes "model a (calls a) = Inr t" and "json_match (strip t) = Some js"
    and "loads rt js = Inr d" and "dict_get d ''metric'' = JNull"
  shows "parse_user_query rt a q = (Inr d, a\<lparr>calls := Suc (calls a)\<rparr>)"
  using assms(4) by (simp add: parse_user_query_decoded [OF assms(1-3)] in_schema_def)

text \<open>
  Claim C4, as amended. The branch that answers that the metric was not understood is
  taken whenever the intent returned by the extractor has a falsy metric; this happens
  whenever the reply of the model decodes to an intent whose metric is null or missing,
  because the resolver is called only for a metric that is not null. When the
  decoded metric is not null and no key of the schema is the empty string, the metric
  tested by \<^verbatim>\<open>process_query\<close> is truthy and the branch is not taken.
\<close>

theorem not_understood_branch:
  "(parse_user_query rt a q = (Inr intent, a1) \<and> \<not> truthy rt (dict_get intent ''metric'')
      \<longrightarrow> process_query rt a q ds = (not_understood_msg, a1))
   \<and> (model a (calls a) = Inr reply \<and> json_match (strip reply) = Some js
        \<and> loads rt js = Inr d \<and> dict_get d ''metric'' = JNull
      \<longrightarrow> process_query rt a q ds = (not_understood_msg, a\<lparr>calls := Suc (calls a)\<rparr>))
   \<and> (model a (calls a) = Inr reply \<and> json_match (strip reply) = Some js
        \<and> loads rt js = Inr d \<and> dict_get d ''metric'' \<noteq> JNull
        \<and> [] \<notin> set (map fst (schema a))
        \<and> parse_user_query rt a q = (Inr intent, a1)
      \<longrightarrow> truthy rt (dict_get intent ''metric''))"
proof (intro conjI impI)
  assume "parse_user_query rt a q = (Inr intent, a1) \<and> \<not> truthy rt (dict_get intent ''metric'')"
  then show "process_query rt a q ds = (not_understood_msg, a1)"
    using process_query_try_not_understood [of rt a q intent a1 ds]
      process_query_answer [of rt a q ds not_understood_msg a1] by blast
next
  assume h: "model a (calls a) = Inr reply \<and> json_match (strip reply) = Some js
        \<and> loads rt js = Inr d \<and> dict_get d ''metric'' = JNull"
  then have p: "parse_user_query rt a q = (Inr d, a\<lparr>calls := Suc (calls a)\<rparr>)"
    using parse_user_query_null [of a reply js rt d q] by blast
  from h have "\<not> truthy rt (dict_get d ''metric'')" by (simp add: truthy_def)
  with p show "process_query rt a q ds = (not_understood_msg, a\<lparr>calls := Suc (calls a)\<rparr>)"
    using process_query_try_not_understood [of rt a q d "a\<lparr>calls := Suc (calls a)\<rparr>" ds]
      process_query_answer [of rt a q ds not_understood_msg "a\<lparr>calls := Suc (calls a)\<rparr>"]
    by blast
next
  assume h: "model a (calls a) = Inr reply \<and> json_match (strip reply) = Some js
        \<and> loads rt js = Inr d \<and> dict_get d ''metric'' \<noteq> JNull
        \<and> [] \<notin> set (map fst (schema a))
        \<and> parse_user_query rt a q = (Inr intent, a1)"
  then have "dict_get intent ''metric'' \<noteq> JNull"
    using parse_user_query_metric_kept [of a reply js rt d q intent a1] by blast
  with h obtain k where k: "dict_get intent ''metric'' = JStr k" "k \<in> set (map fst (schema a))"
    using parse_user_query_metric [of rt a q intent a1] by blast
  from h have e: "[] \<notin> set (map fst (schema a))" by blast
  have "k \<noteq> []"
  proof
    assume "k = []"
    with k(2) e show False by blast
  qed
  with k(1) show "truthy rt (dict_get intent ''metric'')" by (simp add: truthy_def)
qed

text \<open>
  Claim C4 as stated fails: on the reply \<^verbatim>\<open>{"metric": null}\<close>, which the prompt asks for
  when the metric cannot be determined, \<^verbatim>\<open>process_query\<close> returns the message of the
  branch, after a single call to the model.
\<close>

theorem not_understood_reached:
  "fst (process_query demo_env (demo_agent demo_schema [''{\"metric\": null}''])
          ''How are things?'' 1) = not_understood_msg
   \<and> calls (snd (process_query demo_env (demo_agent demo_schema [''{\"metric\": null}''])
          ''How are things?'' 1)) = 1"
  by (simp add: process_query_def process_query_try_def parse_user_query_def
      generate_content_def demo_agent_def replies_def strip_def isspace_def json_match_def
      demo_env_def demo_loads_def dict_get_def in_schema_def truthy_def)

text \<open>
  The theorem on three runs: a reply without JSON, a backend that answers with an HTTP
  error, and a reply without the field \<^verbatim>\<open>intent\<close>, which \<^verbatim>\<open>format_answer\<close> reads.
\<close>

theorem process_query_catches_witness:
  "fst (process_query demo_env (demo_agent demo_schema [''I do not know''])
          ''How busy is it?'' 1)
     = ''I encountered an error while processing your query: No valid JSON found in Gemma response''
   \<and> fst (process_query (demo_env\<lparr>grafana := (\<lambda>promql ds. Inl (External ''503 Server Error''))\<rparr>)
          (demo_agent demo_schema
             [''{\"metric\": \"cpu_usage\", \"aggregation\": \"max\", \"time_range\": \"1h\"}''])
          ''What was the peak CPU usage in the last hour?'' 1)
     = ''I encountered an error while processing your query: 503 Server Error''
   \<and> fst (process_query
          (demo_env\<lparr>grafana :=
             (\<lambda>promql ds. Inr [\<lparr>labels = [], timestamp = 0, sample_value = 21 / 50\<rparr>])\<rparr>)
          (demo_agent demo_schema
             [''{\"metric\": \"cpu_usage\", \"aggregation\": \"max\", \"time_range\": \"1h\"}''])
          ''What was the peak CPU usage in the last hour?'' 1)
     = ''I encountered an error while processing your query: '' @ [CHR 0x27] @ ''intent'' @ [CHR 0x27]"
proof -
  let ?t = "''{\"metric\": \"cpu_usage\", \"aggregation\": \"max\", \"time_range\": \"1h\"}''"
  let ?a = "demo_agent demo_schema [''I do not know'']"
  let ?b = "demo_agent demo_schema [?t]"
  let ?b1 = "?b\<lparr>calls := Suc 0\<rparr>"
  let ?q = "''What was the peak CPU usage in the last hour?''"
  let ?d = "[(''metric'', JStr ''cpu_usage''), (''aggregation'', JStr ''max''),
             (''time_range'', JStr ''1h'')] :: rat pydict"
  let ?e2 = "demo_env\<lparr>grafana := (\<lambda>promql ds. Inl (External ''503 Server Error''))\<rparr>"
  let ?r = "[\<lparr>labels = [], timestamp = 0, sample_value = 21 / 50\<rparr>] :: rat query_result list"
  let ?e3 = "demo_env\<lparr>grafana := (\<lambda>promql ds. Inr ?r)\<rparr>"
  have A: "parse_user_query demo_env ?a ''How busy is it?''
      = (Inl (ValueError ''No valid JSON found in Gemma response''), ?a\<lparr>calls := Suc 0\<rparr>)"
    by (simp add: parse_user_query_def generate_content_def demo_agent_def replies_def
        strip_def isspace_def json_match_def no_json_msg_def)
  have P2: "parse_user_query ?e2 ?b ?q = (Inr ?d, ?b1)"
    by (simp add: parse_user_query_def generate_content_def demo_agent_def replies_def
        strip_def isspace_def json_match_def demo_env_def demo_loads_def dict_get_def
        in_schema_def demo_schema_def)
  have P3: "parse_user_query ?e3 ?b ?q = (Inr ?d, ?b1)"
    by (simp add: parse_user_query_def generate_content_def demo_agent_def replies_def
        strip_def isspace_def json_match_def demo_env_def demo_loads_def dict_get_def
        in_schema_def demo_schema_def)
  have T2: "truthy ?e2 (dict_get ?d ''metric'')" by (simp add: truthy_def dict_get_def)
  have T3: "truthy ?e3 (dict_get ?d ''metric'')" by (simp add: truthy_def dict_get_def)
  have B2: "build_promql ?e2 ?b1 ?d = Inr ''max(rate(cpu[1h]))''"
    by (simp add: build_promql_def demo_agent_def demo_schema_def dict_get_def
        dict_get_default_def truthy_def in_schema_def schema_lookup_def wrap_aggregation_def
        substitute_time_range_def py_str_def)
  have B3: "build_promql ?e3 ?b1 ?d = Inr ''max(rate(cpu[1h]))''"
    by (simp add: build_promql_def demo_agent_def demo_schema_def dict_get_def
        dict_get_default_def truthy_def in_schema_def schema_lookup_def wrap_aggregation_def
        substitute_time_range_def py_str_def)
  have X2: "execute_promql ?e2 ''max(rate(cpu[1h]))'' 1 = Inl (External ''503 Server Error'')"
    by (simp add: execute_promql_def demo_env_def)
  have X3: "execute_promql ?e3 ''max(rate(cpu[1h]))'' 1 = Inr ?r"
    by (simp add: execute_promql_def demo_env_def)
  have F3: "format_answer ?e3 ?b1 ?d ?r = (Inl (KeyError (JStr ''intent'')), ?b1)"
    by (simp add: format_answer_def demo_agent_def demo_schema_def schema_lookup_def
        dict_get_default_def)
  have R1: "process_query demo_env ?a ''How busy is it?'' 1 =
      (''I encountered an error while processing your query: ''
         @ exn_str demo_env (ValueError ''No valid JSON found in Gemma response''),
       ?a\<lparr>calls := Suc 0\<rparr>)"
    using process_query_catches
      [of demo_env ?a "''How busy is it?''" 1
          "ValueError ''No valid JSON found in Gemma response''" "?a\<lparr>calls := Suc 0\<rparr>"]
      A by blast
  have R2: "process_query ?e2 ?b ?q 1 =
      (''I encountered an error while processing your query: ''
         @ exn_str ?e2 (External ''503 Server Error''), ?b1)"
    using process_query_catches
      [of ?e2 ?b ?q 1 "External ''503 Server Error''" ?b1 ?d "''max(rate(cpu[1h]))''"]
      P2 T2 B2 X2 by blast
  have R3: "process_query ?e3 ?b ?q 1 =
      (''I encountered an error while processing your query: ''
         @ exn_str ?e3 (KeyError (JStr ''intent'')), ?b1)"
    using process_query_catches
      [of ?e3 ?b ?q 1 "KeyError (JStr ''intent'')" ?b1 ?d "''max(rate(cpu[1h]))''" ?r ?b1]
      P3 T3 B3 X3 F3 by blast
  show ?thesis
    unfolding R1 R2 R3
    by (simp add: exn_str_def demo_env_def demo_builtin_str_def demo_repr_def)
qed

text \<open>
  The theorem on two runs: the reply \<^verbatim>\<open>{"metric": null}\<close>, and a reply naming a metric
  outside the schema, which the resolver replaces by \<^verbatim>\<open>memory_usage\<close>.
\<close>

theorem not_understood_branch_witness:
  "process_query demo_env (demo_agent demo_schema [''{\"metric\": null}'']) ''How are things?'' 1
     = (not_understood_msg, (demo_agent demo_schema [''{\"metric\": null}''])\<lparr>calls := Suc 0\<rparr>)
   \<and> [] \<notin> set (map fst demo_schema)
   \<and> fst (parse_user_query demo_env
          (demo_agent demo_schema [''{\"metric\": \"cpu\", \"confidence\": 0.75}'', ''memory_usage''])
          ''How much memory is in use?'')
       = Inr [(''metric'', JStr ''memory_usage''), (''confidence'', JNum (11 / 20))]
   \<and> truthy demo_env (JStr ''memory_usage'')"
proof -
  let ?n = "''{\"metric\": null}''"
  let ?a = "demo_agent demo_schema [?n]"
  let ?t = "''{\"metric\": \"cpu\", \"confidence\": 0.75}''"
  let ?b = "demo_agent demo_schema [?t, ''memory_usage'']"
  let ?q = "''How much memory is in use?''"
  let ?d = "[(''metric'', JStr ''cpu''), (''confidence'', JNum (3 / 4))] :: rat pydict"
  let ?i = "[(''metric'', JStr ''memory_usage''), (''confidence'', JNum (11 / 20))] :: rat pydict"
  let ?b2 = "?b\<lparr>calls := Suc (Suc 0)\<rparr>"
  have a1: "model ?a (calls ?a) = Inr ?n" by (simp add: demo_agent_def replies_def)
  have a2: "json_match (strip ?n) = Some ?n" by (simp add: json_match_def strip_def isspace_def)
  have a3: "loads demo_env ?n = Inr [(''metric'', JNull)]" by (simp add: demo_env_def demo_loads_def)
  have a4: "dict_get [(''metric'', JNull)] ''metric'' = (JNull :: rat json)"
    by (simp add: dict_get_def)
  have R: "process_query demo_env ?a ''How are things?'' 1
      = (not_understood_msg, ?a\<lparr>calls := Suc (calls ?a)\<rparr>)"
    using not_understood_branch
      [of demo_env ?a "''How are things?''" ?i ?b2 1 ?n ?n "[(''metric'', JNull)]"]
      a1 a2 a3 a4 by blast
  have b1: "model ?b (calls ?b) = Inr ?t" by (simp add: demo_agent_def replies_def)
  have b2: "json_match (strip ?t) = Some ?t" by (simp add: json_match_def strip_def isspace_def)
  have b3: "loads demo_env ?t = Inr ?d" by (simp add: demo_env_def demo_loads_def)
  have b4: "dict_get ?d ''metric'' \<noteq> JNull" by (simp add: dict_get_def)
  have b5: "[] \<notin> set (map fst (schema ?b))" by (simp add: demo_agent_def demo_schema_def)
  have P: "parse_user_query demo_env ?b ?q = (Inr ?i, ?b2)"
    by (simp add: parse_user_query_def find_closest_metric_def generate_content_def
        demo_agent_def replies_def strip_def isspace_def json_match_def demo_env_def
        demo_loads_def demo_lit_def dict_get_def dict_get_default_def in_schema_def
        demo_schema_def Let_def lower_def lower_char_def isupper_def py_sub_def py_max_def)
  have T: "truthy demo_env (dict_get ?i ''metric'')"
    using not_understood_branch [of demo_env ?b ?q ?i ?b2 1 ?t ?t ?d] b1 b2 b3 b4 b5 P
    by blast
  from T have T': "truthy demo_env (JStr ''memory_usage'')" by (simp add: dict_get_def)
  from b5 have b5': "[] \<notin> set (map fst demo_schema)" by (simp add: demo_agent_def)
  from R have R': "process_query demo_env ?a ''How are things?'' 1
      = (not_understood_msg, ?a\<lparr>calls := Suc 0\<rparr>)"
    by (simp add: demo_agent_def)
  from P have P': "fst (parse_user_query demo_env ?b ?q) = Inr ?i" by simp
  from R' b5' P' T' show ?thesis by blast
qed

end
